theory Spec2Isabelle
  imports
    Complex_Main
    "HOL-Library.Product_Lexorder"
    "HOL-Library.List_Lexorder"
    "HOL-Library.Char_ord"
begin

section \<open>Blood donation datasets: cleaning, reconciliation and grouped sums\<close>

text \<open>
  The development embeds \<^verbatim>\<open>eda_darah_insight.py\<close>. The script is a sequence of
  top-level statements over two pandas tables, \<^verbatim>\<open>facility_df\<close> and \<^verbatim>\<open>state_df\<close>.
  Every definition below is named after the script variable whose value it computes and
  takes as arguments the tables that the statement reads. A statement that can raise
  returns its value or the exception; the value of one table does not record an
  exception raised by a statement on the other table.

  A table is the list of its rows, in file order. A cell that pandas reports as missing
  (\<^verbatim>\<open>NaN\<close>, \<^verbatim>\<open>NaT\<close>) is \<open>None\<close>. The column \<^verbatim>\<open>daily\<close> holds integer counts; the
  totals that pandas derives from it are integers as long as no cell is missing and
  integer-valued floats otherwise, so a total is an \<open>int\<close> and a total that may be missing
  is an \<open>int option\<close>. pandas computes with 64-bit integers and binary floating point;
  the predicate \<open>in_range\<close> below gives a range of tables on which the integers of this
  theory are the numbers of pandas. The columns \<^verbatim>\<open>hospital\<close> and \<^verbatim>\<open>state\<close> hold
  text; the plots of the script are not part of the development.
\<close>

subsection \<open>Time stamps\<close>

text \<open>
  A parsed date is a time stamp: year, month, day and the time of day. Time stamps are
  ordered lexicographically, which is the chronological order.
\<close>

type_synonym timestamp = "int \<times> nat \<times> nat \<times> nat"

text \<open>\<^verbatim>\<open>.dt.year\<close> and \<^verbatim>\<open>.dt.to_period('M')\<close> on a valid time stamp.\<close>

definition year :: "timestamp \<Rightarrow> int" where
  "year t = fst t"

definition to_period_M :: "timestamp \<Rightarrow> int \<times> nat" where
  "to_period_M t = (fst t, fst (snd t))"

subsection \<open>Rows\<close>

text \<open>
  One row of either table: the reporting unit (\<^verbatim>\<open>hospital\<close> in the facility table,
  \<^verbatim>\<open>state\<close> in the state table), the date, the total of the day, and all remaining
  columns. The date is text (or missing) as read from the file and a time stamp (or
  \<^verbatim>\<open>NaT\<close>) after line 47.
\<close>

record ('d, 'a) row =
  entity :: "string option"
  date :: 'd
  daily :: "int option"
  others :: 'a

subsection \<open>Errors\<close>

text \<open>The exceptions that the statements embedded here can raise.\<close>

datatype error = AttributeError | ValueError

text \<open>The cells of a column that are not missing, in order.\<close>

definition dropna :: "'v option list \<Rightarrow> 'v list" where
  "dropna col = List.map_filter (\<lambda>c. c) col"

subsection \<open>Lines 32 to 34: the nationwide row of the state table\<close>

text \<open>
  \<^verbatim>\<open>.str.lower()\<close>: Python's \<^verbatim>\<open>str.lower\<close> on each cell; a missing cell stays missing.
  A string is its sequence of bytes, and the capitals A to Z are the bytes that change.
  Python also lower-cases capitals outside ASCII; none of them becomes a letter of
  \<^verbatim>\<open>malaysia\<close>, so the comparison below is the same.
\<close>

definition char_lower :: "char \<Rightarrow> char" where
  "char_lower c =
     (if CHR ''A'' \<le> c \<and> c \<le> CHR ''Z'' then char_of (of_char c + (32::nat)) else c)"

definition str_lower :: "string \<Rightarrow> string" where
  "str_lower s = map char_lower s"

text \<open>
  \<^verbatim>\<open>state_df['state'].str.lower().eq('malaysia')\<close> on one cell. The comparison of a
  missing cell with a string is \<open>False\<close>.
\<close>

definition eq_malaysia :: "string option \<Rightarrow> bool" where
  "eq_malaysia c = (map_option str_lower c = Some ''malaysia'')"

text \<open>
  The accessor \<^verbatim>\<open>.str\<close> needs a column of text. A column that has rows and not one
  name is read from the file as a column of floats, all of them \<^verbatim>\<open>NaN\<close>, and
  \<^verbatim>\<open>.str\<close> on it raises \<^verbatim>\<open>AttributeError\<close>. A column without rows is accepted.
\<close>

definition str_accessor_raises :: "string option list \<Rightarrow> bool" where
  "str_accessor_raises col = (col \<noteq> [] \<and> list_all (\<lambda>c. c = None) col)"

text \<open>
  The guard \<^verbatim>\<open>'state' in state_df.columns\<close> is the argument \<open>has_state\<close>; without
  the column the table is left as it is.
\<close>

definition drop_malaysia :: "bool \<Rightarrow> ('d, 'a) row list \<Rightarrow> error + ('d, 'a) row list" where
  "drop_malaysia has_state df =
     (if has_state then
        (if str_accessor_raises (map entity df) then Inl AttributeError
         else Inr (filter (\<lambda>r. \<not> eq_malaysia (entity r)) df))
      else Inr df)"

subsection \<open>Lines 47 and 48: dates\<close>

text \<open>
  \<^verbatim>\<open>pd.to_datetime\<close> settles on one way of reading a column. It takes the first cell
  that is not missing and guesses a format from it. With a format, every cell is read
  by \<^verbatim>\<open>strptime\<close> in that format; without one, every cell is read on its own by
  \<^verbatim>\<open>dateutil\<close>. The three library routines are the fields of the argument \<open>P\<close>.
\<close>

record 'f parser =
  guess_format :: "string \<Rightarrow> 'f option"
  strptime :: "'f \<Rightarrow> string \<Rightarrow> timestamp option"
  dateutil :: "string \<Rightarrow> timestamp option"

definition first_non_null :: "'v option list \<Rightarrow> 'v option" where
  "first_non_null col = (case dropna col of [] \<Rightarrow> None | x # _ \<Rightarrow> Some x)"

definition cell_parser :: "'f parser \<Rightarrow> string option list \<Rightarrow> string \<Rightarrow> timestamp option" where
  "cell_parser P col =
     (case first_non_null col of
        None \<Rightarrow> dateutil P
      | Some s \<Rightarrow> (case guess_format P s of None \<Rightarrow> dateutil P | Some fmt \<Rightarrow> strptime P fmt))"

definition parse_cell :: "(string \<Rightarrow> timestamp option) \<Rightarrow> string option \<Rightarrow> timestamp option" where
  "parse_cell p c = (case c of None \<Rightarrow> None | Some s \<Rightarrow> p s)"

text \<open>
  The argument \<^verbatim>\<open>errors\<close>: with \<^verbatim>\<open>'raise'\<close>, the default, a cell that cannot be read
  raises \<^verbatim>\<open>ValueError\<close>; with \<^verbatim>\<open>'coerce'\<close>, which the script passes, the cell becomes
  \<^verbatim>\<open>NaT\<close>.
\<close>

datatype errors_arg = Raise | Coerce

definition to_datetime ::
  "'f parser \<Rightarrow> errors_arg \<Rightarrow> string option list \<Rightarrow> error + timestamp option list" where
  "to_datetime P errors col =
     (let p = cell_parser P col
      in if errors = Raise \<and> list_ex (\<lambda>c. case c of None \<Rightarrow> False | Some s \<Rightarrow> p s = None) col
         then Inl ValueError
         else Inr (map (parse_cell p) col))"

text \<open>The assignment \<^verbatim>\<open>df['date'] = ...\<close>: the new cells replace the old ones row by row.\<close>

definition set_dates :: "('c, 'a) row list \<Rightarrow> 'd list \<Rightarrow> ('d, 'a) row list" where
  "set_dates df ts =
     map (\<lambda>(r, t). \<lparr>entity = entity r, date = t, daily = daily r, others = others r\<rparr>) (zip df ts)"

definition convert_dates ::
  "'f parser \<Rightarrow> (string option, 'a) row list \<Rightarrow> error + (timestamp option, 'a) row list" where
  "convert_dates P df =
     (case to_datetime P Coerce (map date df) of
        Inl e \<Rightarrow> Inl e
      | Inr ts \<Rightarrow> Inr (set_dates df ts))"

subsection \<open>Lines 55 to 57: missing names\<close>

definition fillna :: "'v \<Rightarrow> 'v option \<Rightarrow> 'v option" where
  "fillna v c = (case c of None \<Rightarrow> Some v | Some x \<Rightarrow> Some x)"

definition fill_entity :: "('d, 'a) row list \<Rightarrow> ('d, 'a) row list" where
  "fill_entity df = map (\<lambda>r. r\<lparr>entity := fillna ''Unknown'' (entity r)\<rparr>) df"

subsection \<open>The two tables after cleaning\<close>

text \<open>
  The value of \<^verbatim>\<open>facility_df\<close> after line 55, or the exception that stops the script
  before.
\<close>

definition facility_df ::
  "'f parser \<Rightarrow> (string option, 'a) row list \<Rightarrow> error + (timestamp option, 'a) row list" where
  "facility_df P raw =
     (case convert_dates P raw of Inl e \<Rightarrow> Inl e | Inr df \<Rightarrow> Inr (fill_entity df))"

text \<open>
  The value of \<^verbatim>\<open>state_df\<close> after line 57, or the exception that stops the script
  before.
\<close>

definition state_df ::
  "'f parser \<Rightarrow> bool \<Rightarrow> (string option, 'a) row list \<Rightarrow> error + (timestamp option, 'a) row list" where
  "state_df P has_state raw =
     (case drop_malaysia has_state raw of
        Inl e \<Rightarrow> Inl e
      | Inr df \<Rightarrow>
          (case convert_dates P df of
             Inl e \<Rightarrow> Inl e
           | Inr df' \<Rightarrow> Inr (if has_state then fill_entity df' else df')))"

subsection \<open>Grouped sums\<close>

text \<open>\<^verbatim>\<open>Series.sum()\<close> skips missing cells; the sum of no cells is 0.\<close>

definition na_sum :: "int option list \<Rightarrow> int" where
  "na_sum vs = sum_list (map (\<lambda>v. case v of None \<Rightarrow> 0 | Some x \<Rightarrow> x) vs)"

text \<open>
  \<^verbatim>\<open>df.groupby(key)[val].sum()\<close>: rows whose key is missing belong to no group
  (\<^verbatim>\<open>dropna=True\<close>), the groups are listed by ascending key (\<^verbatim>\<open>sort=True\<close>), and the
  value of a group is the sum over all of its rows.
\<close>

definition groupby_sum ::
  "('r \<Rightarrow> 'k::linorder option) \<Rightarrow> ('r \<Rightarrow> int option) \<Rightarrow> 'r list \<Rightarrow> ('k \<times> int) list" where
  "groupby_sum key val df =
     map (\<lambda>k. (k, na_sum (map val (filter (\<lambda>r. key r = Some k) df))))
       (sort (remdups (List.map_filter key df)))"

definition sort_index :: "('k::linorder \<times> 'v) list \<Rightarrow> ('k \<times> 'v) list" where
  "sort_index s = sort_key fst s"

text \<open>
  \<^verbatim>\<open>sort_values(ascending=False)\<close>: descending by value. Entries with equal values
  are kept in their previous order here; pandas leaves their order to the sorting
  routine, and no statement below depends on it.
\<close>

definition sort_values_desc :: "('k \<times> int) list \<Rightarrow> ('k \<times> int) list" where
  "sort_values_desc s = sort_key (\<lambda>kv. - snd kv) s"

text \<open>Lines 71 and 72.\<close>

definition facility_daily_sum :: "(timestamp option, 'a) row list \<Rightarrow> (timestamp \<times> int) list" where
  "facility_daily_sum df = sort_index (groupby_sum date daily df)"

definition state_daily_sum :: "(timestamp option, 'a) row list \<Rightarrow> (timestamp \<times> int) list" where
  "state_daily_sum df = sort_index (groupby_sum date daily df)"

text \<open>Line 127.\<close>

definition facility_totals :: "('d, 'a) row list \<Rightarrow> (string \<times> int) list" where
  "facility_totals df = sort_values_desc (groupby_sum entity daily df)"

text \<open>Lines 137 and 138; the year of \<^verbatim>\<open>NaT\<close> is missing.\<close>

definition yearly_facility :: "(timestamp option, 'a) row list \<Rightarrow> (int \<times> int) list" where
  "yearly_facility df = groupby_sum (\<lambda>r. map_option year (date r)) daily df"

definition yearly_state :: "(timestamp option, 'a) row list \<Rightarrow> (int \<times> int) list" where
  "yearly_state df = groupby_sum (\<lambda>r. map_option year (date r)) daily df"

text \<open>Lines 235 and 236; the period of \<^verbatim>\<open>NaT\<close> is missing.\<close>

definition facility_monthly :: "(timestamp option, 'a) row list \<Rightarrow> ((int \<times> nat) \<times> int) list" where
  "facility_monthly df = groupby_sum (\<lambda>r. map_option to_period_M (date r)) daily df"

definition state_monthly :: "(timestamp option, 'a) row list \<Rightarrow> ((int \<times> nat) \<times> int) list" where
  "state_monthly df = groupby_sum (\<lambda>r. map_option to_period_M (date r)) daily df"

subsection \<open>Lines 75 to 91: comparison of the daily totals\<close>

text \<open>
  \<^verbatim>\<open>pd.DataFrame({'facility_total': f, 'state_total': s})\<close> aligns the two series on
  the union of their indexes: equal indexes are kept, different ones are merged in
  ascending order, and a date that one series lacks gets a missing cell in that column.
\<close>

definition index_union :: "'k::linorder list \<Rightarrow> 'k list \<Rightarrow> 'k list" where
  "index_union a b = (if a = b then a else sort (remdups (a @ b)))"

record vrow =
  vdate :: timestamp
  facility_total :: "int option"
  state_total :: "int option"
  difference :: "int option"

text \<open>Subtraction of two cells: missing as soon as one operand is missing.\<close>

definition na_sub :: "int option \<Rightarrow> int option \<Rightarrow> int option" where
  "na_sub a b = (case a of None \<Rightarrow> None | Some x \<Rightarrow> (case b of None \<Rightarrow> None | Some y \<Rightarrow> Some (x - y)))"

definition verification_df :: "(timestamp \<times> int) list \<Rightarrow> (timestamp \<times> int) list \<Rightarrow> vrow list" where
  "verification_df f s =
     map (\<lambda>d. \<lparr>vdate = d, facility_total = map_of f d, state_total = map_of s d,
               difference = na_sub (map_of f d) (map_of s d)\<rparr>)
       (index_union (map fst f) (map fst s))"

text \<open>
  \<^verbatim>\<open>verification_df['difference'] != 0\<close> on one cell: a missing difference is not
  equal to 0, so the comparison is \<open>True\<close> for it.
\<close>

definition ne_zero :: "int option \<Rightarrow> bool" where
  "ne_zero c = (c \<noteq> Some 0)"

definition mismatches :: "vrow list \<Rightarrow> vrow list" where
  "mismatches v = filter (\<lambda>r. ne_zero (difference r)) v"

text \<open>
  The number printed at line 88 and the rows printed at line 91. Without a mismatch the
  script prints a sentence in place of the rows, and the list is empty.
\<close>

definition mismatch_count :: "vrow list \<Rightarrow> nat" where
  "mismatch_count v = length (mismatches v)"


subsection \<open>Mean and squared deviations\<close>



subsection \<open>Line 84: descriptive statistics\<close>










subsection \<open>Lines 223 and 229: correlation\<close>





subsection \<open>A sample parser\<close>

text \<open>
  One possible value of the argument \<open>P\<close>, used in the examples: the two formats
  \<^verbatim>\<open>%Y-%m-%d\<close> (that of the published files) and \<^verbatim>\<open>%m/%d/%Y\<close>. A format is guessed
  from a text that reads in it, and the routine without a format tries both.
\<close>

definition digit_value :: "char \<Rightarrow> nat option" where
  "digit_value c = (if CHR ''0'' \<le> c \<and> c \<le> CHR ''9'' then Some (of_char c - 48) else None)"

fun decimal :: "nat \<Rightarrow> string \<Rightarrow> nat option" where
  "decimal acc [] = Some acc"
| "decimal acc (c # cs) =
     (case digit_value c of None \<Rightarrow> None | Some d \<Rightarrow> decimal (10 * acc + d) cs)"

definition days_in_month :: "nat \<Rightarrow> nat \<Rightarrow> nat" where
  "days_in_month y m =
     (if m = 2 then (if y mod 400 = 0 \<or> (y mod 4 = 0 \<and> y mod 100 \<noteq> 0) then 29 else 28)
      else if m = 4 \<or> m = 6 \<or> m = 9 \<or> m = 11 then 30 else 31)"

definition make_date :: "nat option \<Rightarrow> nat option \<Rightarrow> nat option \<Rightarrow> timestamp option" where
  "make_date y m d =
     (case y of None \<Rightarrow> None | Some y' \<Rightarrow>
      (case m of None \<Rightarrow> None | Some m' \<Rightarrow>
       (case d of None \<Rightarrow> None | Some d' \<Rightarrow>
          if 1 \<le> m' \<and> m' \<le> 12 \<and> 1 \<le> d' \<and> d' \<le> days_in_month y' m'
          then Some (int y', m', d', 0) else None)))"

definition parse_ymd :: "string \<Rightarrow> timestamp option" where
  "parse_ymd s =
     (if length s = 10 \<and> s ! 4 = CHR ''-'' \<and> s ! 7 = CHR ''-''
      then make_date (decimal 0 (take 4 s)) (decimal 0 (take 2 (drop 5 s))) (decimal 0 (drop 8 s))
      else None)"

definition parse_mdy :: "string \<Rightarrow> timestamp option" where
  "parse_mdy s =
     (if length s = 10 \<and> s ! 2 = CHR ''/'' \<and> s ! 5 = CHR ''/''
      then make_date (decimal 0 (drop 6 s)) (decimal 0 (take 2 s)) (decimal 0 (take 2 (drop 3 s)))
      else None)"

datatype date_format = YMD | MDY

definition sample_guess :: "string \<Rightarrow> date_format option" where
  "sample_guess s =
     (if parse_ymd s \<noteq> None then Some YMD else if parse_mdy s \<noteq> None then Some MDY else None)"

fun sample_strptime :: "date_format \<Rightarrow> string \<Rightarrow> timestamp option" where
  "sample_strptime YMD s = parse_ymd s"
| "sample_strptime MDY s = parse_mdy s"

definition sample_dateutil :: "string \<Rightarrow> timestamp option" where
  "sample_dateutil s = (case parse_ymd s of None \<Rightarrow> parse_mdy s | Some t \<Rightarrow> Some t)"

definition sample_parser :: "date_format parser" where
  "sample_parser =
     \<lparr>guess_format = sample_guess, strptime = sample_strptime, dateutil = sample_dateutil\<rparr>"

subsection \<open>Example tables\<close>

text \<open>
  A facility table with a date in the format of the first row, a text that is no date,
  and a date in the other format.
\<close>

definition example_dates :: "(string option, unit) row list" where
  "example_dates =
     [\<lparr>entity = Some ''H1'', date = Some ''2023-01-01'', daily = Some 10, others = ()\<rparr>,
      \<lparr>entity = None, date = Some ''not a date'', daily = Some 7, others = ()\<rparr>,
      \<lparr>entity = Some ''H2'', date = Some ''01/02/2023'', daily = Some 3, others = ()\<rparr>]"

subsection \<open>Equality of names up to letter case\<close>

text \<open>
  The specification describes the filter of lines 32 to 34 as removing the names that
  equal ``Malaysia'' case-insensitively. This is that relation, stated on its own terms
  and not through \<open>str_lower\<close>: two strings of the same length whose characters agree
  position by position, where two characters agree when they are equal or one is the
  capital form of the other.
\<close>

definition char_upper :: "char \<Rightarrow> char" where
  "char_upper c =
     (if CHR ''a'' \<le> c \<and> c \<le> CHR ''z'' then char_of (of_char c - (32::nat)) else c)"

definition same_letter :: "char \<Rightarrow> char \<Rightarrow> bool" where
  "same_letter x y = (x = y \<or> char_upper x = y \<or> x = char_upper y)"

definition equals_ignoring_case :: "string \<Rightarrow> string \<Rightarrow> bool" where
  "equals_ignoring_case a b = list_all2 same_letter a b"

subsection \<open>The range in which the integers are exact\<close>


subsection \<open>The reconciliation in terms of the two aggregates\<close>




subsection \<open>More example tables\<close>



section \<open>Properties\<close>

subsection \<open>Grouped sums are keyed maps\<close>

lemma groupby_sum_keys: "map fst (groupby_sum key val df) = sort (remdups (List.map_filter key df))"
  by (simp add: groupby_sum_def comp_def)

lemma groupby_sum_distinct: "distinct (map fst (groupby_sum key val df))"
  by (simp add: groupby_sum_keys)

lemma groupby_sum_sorted: "sorted (map fst (groupby_sum key val df))"
  by (simp add: groupby_sum_keys)

lemma sort_index_groupby_sum: "sort_index (groupby_sum key val df) = groupby_sum key val df"
  unfolding sort_index_def by (rule sort_key_id_if_sorted) (rule groupby_sum_sorted)

lemma index_union_same: "index_union a a = a"
  by (simp add: index_union_def)

lemma map_of_self: "distinct (map fst xs) \<Longrightarrow> (k, v) \<in> set xs \<Longrightarrow> map_of xs k = Some v"
  by simp

lemma verification_df_same:
  assumes "distinct (map fst x)"
  shows "map difference (verification_df x x) = map (\<lambda>_. Some 0) x"
proof -
  have "na_sub (map_of x (fst p)) (map_of x (fst p)) = Some 0" if "p \<in> set x" for p
  proof -
    from that assms have "map_of x (fst p) = Some (snd p)"
      by (intro map_of_self) simp_all
    then show ?thesis by (simp add: na_sub_def)
  qed
  then show ?thesis
    by (simp add: verification_df_def index_union_same)
qed

text \<open>
  C3. The comparison of a daily aggregate with itself: the difference is 0 on every
  date and no date is a mismatch. The aggregate is the daily sum of any cleaned table.
\<close>

theorem reconcile_self:
  "map difference (verification_df (facility_daily_sum df) (facility_daily_sum df))
     = map (\<lambda>_. Some 0) (facility_daily_sum df)
   \<and> mismatch_count (verification_df (facility_daily_sum df) (facility_daily_sum df)) = 0"
proof -
  let ?x = "facility_daily_sum df"
  have d: "distinct (map fst ?x)"
    by (simp add: facility_daily_sum_def sort_index_groupby_sum groupby_sum_distinct)
  have m: "map difference (verification_df ?x ?x) = map (\<lambda>_. Some 0) ?x"
    by (rule verification_df_same [OF d])
  have "filter (\<lambda>r. ne_zero (difference r)) (verification_df ?x ?x) = []"
  proof -
    have "\<forall>c \<in> set (map difference (verification_df ?x ?x)). \<not> ne_zero c"
      unfolding m by (simp add: ne_zero_def)
    then show ?thesis by (simp add: filter_empty_conv)
  qed
  then have "mismatch_count (verification_df ?x ?x) = 0"
    by (simp add: mismatch_count_def mismatches_def)
  with m show ?thesis by simp
qed

subsection \<open>The comparison table\<close>

lemma index_union_set: "set (index_union a b) = set a \<union> set b"
  by (auto simp: index_union_def)

lemma index_union_commute: "index_union a b = index_union b a"
proof (cases "a = b")
  case True
  then show ?thesis by simp
next
  case False
  have "sort (remdups (a @ b)) = sort (remdups (b @ a))"
    by (rule sorted_distinct_set_unique) auto
  with False show ?thesis by (auto simp: index_union_def)
qed

lemma index_union_distinct: "distinct a \<Longrightarrow> distinct (index_union a b)"
  by (auto simp: index_union_def)


lemma na_sub_swap: "na_sub b a = map_option uminus (na_sub a b)"
  by (simp add: na_sub_def split: option.splits)

lemma ne_zero_uminus: "ne_zero (map_option uminus c) = ne_zero c"
  by (cases c) (auto simp: ne_zero_def)

lemma verification_df_dates:
  "map vdate (verification_df f s) = index_union (map fst f) (map fst s)"
  by (simp add: verification_df_def comp_def)

lemma verification_df_row:
  "d \<in> fst ` set f \<union> fst ` set s \<Longrightarrow>
   \<lparr>vdate = d, facility_total = map_of f d, state_total = map_of s d,
     difference = na_sub (map_of f d) (map_of s d)\<rparr> \<in> set (verification_df f s)"
  by (auto simp: verification_df_def index_union_set)

lemma map_of_absent: "d \<notin> fst ` set s \<Longrightarrow> map_of s d = None"
  by (simp add: map_of_eq_None_iff)

lemma daily_sum_distinct:
  "distinct (map fst (facility_daily_sum df))" "distinct (map fst (state_daily_sum df))"
  by (simp_all add: facility_daily_sum_def state_daily_sum_def sort_index_groupby_sum
        groupby_sum_distinct)


text \<open>
  C4. Exchanging the two aggregates keeps the dates, negates the difference on every
  date (a missing difference stays missing) and keeps the outcome of the comparison
  with 0 on every date. This holds for any two keyed lists, in particular for any two
  daily aggregates.
\<close>

theorem reconcile_antisymmetric:
  "map vdate (verification_df s f) = map vdate (verification_df f s)
   \<and> map difference (verification_df s f)
       = map (\<lambda>r. map_option uminus (difference r)) (verification_df f s)
   \<and> map (\<lambda>r. ne_zero (difference r)) (verification_df s f)
       = map (\<lambda>r. ne_zero (difference r)) (verification_df f s)"
  by (simp add: verification_df_def comp_def index_union_commute [of "map fst s"]
        na_sub_swap [of "map_of s _"] ne_zero_uminus)

text \<open>
  C1, as the script computes it. A date that only one of the two daily aggregates has
  gets a missing total on the other side, not 0; its difference is missing as well, and
  the date is among the mismatches. Every date has one row.
\<close>

theorem reconcile_one_sided:
  "((d, t) \<in> set (facility_daily_sum fdf) \<and> d \<notin> fst ` set (state_daily_sum sdf) \<longrightarrow>
      \<lparr>vdate = d, facility_total = Some t, state_total = None, difference = None\<rparr>
        \<in> set (mismatches (verification_df (facility_daily_sum fdf) (state_daily_sum sdf))))
   \<and> ((d, t) \<in> set (state_daily_sum sdf) \<and> d \<notin> fst ` set (facility_daily_sum fdf) \<longrightarrow>
      \<lparr>vdate = d, facility_total = None, state_total = Some t, difference = None\<rparr>
        \<in> set (mismatches (verification_df (facility_daily_sum fdf) (state_daily_sum sdf))))
   \<and> distinct (map vdate (verification_df (facility_daily_sum fdf) (state_daily_sum sdf)))"
proof -
  let ?f = "facility_daily_sum fdf" and ?s = "state_daily_sum sdf"
  have 1: "\<lparr>vdate = d, facility_total = Some t, state_total = None, difference = None\<rparr>
        \<in> set (mismatches (verification_df ?f ?s))"
    if a: "(d, t) \<in> set ?f" and b: "d \<notin> fst ` set ?s"
  proof -
    from a have "map_of ?f d = Some t" by (simp add: daily_sum_distinct)
    moreover from b have "map_of ?s d = None" by (rule map_of_absent)
    moreover from a have "d \<in> fst ` set ?f \<union> fst ` set ?s" by force
    ultimately show ?thesis
      using verification_df_row [of d ?f ?s]
      by (simp add: mismatches_def ne_zero_def na_sub_def)
  qed
  have 2: "\<lparr>vdate = d, facility_total = None, state_total = Some t, difference = None\<rparr>
        \<in> set (mismatches (verification_df ?f ?s))"
    if a: "(d, t) \<in> set ?s" and b: "d \<notin> fst ` set ?f"
  proof -
    from a have "map_of ?s d = Some t" by (simp add: daily_sum_distinct)
    moreover from b have "map_of ?f d = None" by (rule map_of_absent)
    moreover from a have "d \<in> fst ` set ?f \<union> fst ` set ?s" by force
    ultimately show ?thesis
      using verification_df_row [of d ?f ?s]
      by (simp add: mismatches_def ne_zero_def na_sub_def)
  qed
  have 3: "distinct (map vdate (verification_df ?f ?s))"
    by (simp add: verification_df_dates index_union_distinct daily_sum_distinct)
  from 1 2 3 show ?thesis by blast
qed

text \<open>
  The theorem at the facility table with the single row (H1, 2023-01-01, 50) and the
  empty state table: both hypotheses of the first part hold, and the row of the date has
  a missing state total and a missing difference.
\<close>

theorem reconcile_one_sided_witness:
  "((2023, 1, 1, 0), 50) \<in> set (facility_daily_sum
       [\<lparr>entity = Some ''H1'', date = Some (2023, 1, 1, 0), daily = Some 50, others = ()\<rparr>])
   \<and> (2023, 1, 1, 0) \<notin> fst ` set (state_daily_sum ([] :: (timestamp option, unit) row list))
   \<and> \<lparr>vdate = (2023, 1, 1, 0), facility_total = Some 50, state_total = None, difference = None\<rparr>
        \<in> set (mismatches (verification_df
             (facility_daily_sum
               [\<lparr>entity = Some ''H1'', date = Some (2023, 1, 1, 0), daily = Some 50, others = ()\<rparr>])
             (state_daily_sum ([] :: (timestamp option, unit) row list))))"
proof -
  let ?fdf = "[\<lparr>entity = Some ''H1'', date = Some (2023, 1, 1, 0), daily = Some 50, others = ()\<rparr>]"
  let ?sdf = "[] :: (timestamp option, unit) row list"
  have a: "((2023, 1, 1, 0), 50) \<in> set (facility_daily_sum ?fdf)"
    by (simp add: facility_daily_sum_def sort_index_def groupby_sum_def na_sum_def)
  have b: "(2023, 1, 1, 0) \<notin> fst ` set (state_daily_sum ?sdf)"
    by (simp add: state_daily_sum_def sort_index_def groupby_sum_def)
  from reconcile_one_sided [of "(2023, 1, 1, 0)" 50 ?fdf ?sdf] a b
  have "\<lparr>vdate = (2023, 1, 1, 0), facility_total = Some 50, state_total = None, difference = None\<rparr>
        \<in> set (mismatches (verification_df (facility_daily_sum ?fdf) (state_daily_sum ?sdf)))"
    by blast
  with a b show ?thesis by blast
qed

text \<open>
  C1 as stated fails: for the aggregates \<open>[(2023-01-01, 50)]\<close> and \<open>[]\<close> the row of the
  date has no state total and no difference, where the statement expects 0 and 50.
\<close>

theorem reconcile_absent_not_zero:
  "verification_df [((2023, 1, 1, 0), 50)] []
     = [\<lparr>vdate = (2023, 1, 1, 0), facility_total = Some 50, state_total = None, difference = None\<rparr>]
   \<and> verification_df [((2023, 1, 1, 0), 50)] []
     \<noteq> [\<lparr>vdate = (2023, 1, 1, 0), facility_total = Some 50, state_total = Some 0, difference = Some 50\<rparr>]"
  by (simp add: verification_df_def index_union_def na_sub_def)

subsection \<open>Cleaning\<close>

lemma char_le_nat: "c \<le> d \<longleftrightarrow> (of_char c :: nat) \<le> of_char d"
  by (simp only: less_eq_char_def)

lemma of_char_lower:
  "(of_char (char_lower c) :: nat) = (if 65 \<le> (of_char c :: nat) \<and> (of_char c :: nat) \<le> 90 then of_char c + 32 else of_char c)"
proof -
  have "(of_char c :: nat) < 256" by simp
  then show ?thesis
    by (simp only: char_lower_def char_le_nat of_char_of split: if_splits) (simp add: mod_if del: less_eq_char_simp)
qed

lemma of_char_upper:
  "(of_char (char_upper c) :: nat) = (if 97 \<le> (of_char c :: nat) \<and> (of_char c :: nat) \<le> 122 then of_char c - 32 else of_char c)"
proof -
  have "(of_char c :: nat) < 256" by simp
  then show ?thesis
    unfolding char_upper_def char_le_nat
    by (auto simp: mod_if simp del: less_eq_char_simp)
qed

lemma char_eq_nat: "c = d \<longleftrightarrow> (of_char c :: nat) = of_char d"
  by simp

lemma lower_upper_nat:
  fixes n m :: nat
  shows "((if 65 \<le> n \<and> n \<le> 90 then n + 32 else n) = (if 65 \<le> m \<and> m \<le> 90 then m + 32 else m))
    \<longleftrightarrow> (n = m \<or> (if 97 \<le> n \<and> n \<le> 122 then n - 32 else n) = m
          \<or> n = (if 97 \<le> m \<and> m \<le> 122 then m - 32 else m))"
  by (simp split: if_splits) arith

lemma char_lower_eq_iff: "char_lower x = char_lower y \<longleftrightarrow> same_letter x y"
  unfolding same_letter_def char_eq_nat [of "char_lower x"] char_eq_nat [of x] char_eq_nat [of "char_upper x"]
    of_char_lower of_char_upper
  by (rule lower_upper_nat)

lemma str_lower_eq_iff: "str_lower a = str_lower b \<longleftrightarrow> equals_ignoring_case a b"
  unfolding str_lower_def equals_ignoring_case_def
proof (induction a arbitrary: b)
  case Nil
  then show ?case by simp
next
  case (Cons x a)
  then show ?case by (cases b) (simp_all add: char_lower_eq_iff)
qed

lemma str_lower_Malaysia: "str_lower ''Malaysia'' = ''malaysia''"
  by code_simp

lemma eq_malaysia_iff:
  "eq_malaysia c \<longleftrightarrow> (case c of None \<Rightarrow> False | Some s \<Rightarrow> equals_ignoring_case s ''Malaysia'')"
  by (cases c) (simp_all add: eq_malaysia_def str_lower_eq_iff [symmetric] str_lower_Malaysia)


subsection \<open>Grouped sums by hospital and by period\<close>

lemma groupby_sum_keys_set:
  "set (map fst (groupby_sum key val df)) = {k. \<exists>r \<in> set df. key r = Some k}"
  unfolding groupby_sum_keys by (force simp: map_filter_def)

lemma groupby_sum_values:
  "map snd (groupby_sum key val df)
     = map (\<lambda>k. na_sum (map val (filter (\<lambda>r. key r = Some k) df))) (map fst (groupby_sum key val df))"
  by (simp add: groupby_sum_def comp_def)

lemma sort_values_desc_props:
  "sorted (rev (map snd (sort_values_desc s)))"
  "set (sort_values_desc s) = set s"
  "distinct (map fst s) \<Longrightarrow> distinct (map fst (sort_values_desc s))"
proof -
  have "sorted (map (\<lambda>kv. - snd kv) (sort_values_desc s))"
    unfolding sort_values_desc_def by (rule sorted_sort_key)
  then have "sorted (map uminus (map snd (sort_values_desc s)))"
    by (simp add: comp_def)
  then show "sorted (rev (map snd (sort_values_desc s)))"
    by (simp add: sorted_wrt_rev sorted_map sorted_wrt_map)
  show "set (sort_values_desc s) = set s"
    by (simp add: sort_values_desc_def)
  show "distinct (map fst s) \<Longrightarrow> distinct (map fst (sort_values_desc s))"
    unfolding sort_values_desc_def
    by (metis distinct_map distinct_sort set_sort)
qed

text \<open>
  C9. The hospital totals have one entry per hospital name of the table; the entry is
  the sum over all rows of that name, rows of the same hospital and date included; the
  entries are in descending order of their sums. The rows (H1, 10), (H1, 20), (H2, 5)
  give (H1, 30), (H2, 5).
\<close>

theorem facility_totals_grouped_sorted:
  "set (map fst (facility_totals df)) = {h. \<exists>r \<in> set df. entity r = Some h}
   \<and> distinct (map fst (facility_totals df))
   \<and> map snd (facility_totals df)
       = map (\<lambda>h. na_sum (map daily (filter (\<lambda>r. entity r = Some h) df)))
           (map fst (facility_totals df))
   \<and> sorted (rev (map snd (facility_totals df)))
   \<and> facility_totals
        [\<lparr>entity = Some ''H1'', date = Some (2023, 1, 1, 0), daily = Some 10, others = ()\<rparr>,
         \<lparr>entity = Some ''H1'', date = Some (2023, 1, 1, 0), daily = Some 20, others = ()\<rparr>,
         \<lparr>entity = Some ''H2'', date = Some (2023, 1, 1, 0), daily = Some 5, others = ()\<rparr>]
       = [(''H1'', 30), (''H2'', 5)]"
proof -
  let ?g = "groupby_sum entity daily df"
  have s: "set (facility_totals df) = set ?g"
    by (simp add: facility_totals_def sort_values_desc_props)
  have 1: "set (map fst (facility_totals df)) = {h. \<exists>r \<in> set df. entity r = Some h}"
    using groupby_sum_keys_set [of entity daily df] s by simp
  have 2: "distinct (map fst (facility_totals df))"
    unfolding facility_totals_def
    by (rule sort_values_desc_props) (rule groupby_sum_distinct)
  have "snd p = na_sum (map daily (filter (\<lambda>r. entity r = Some (fst p)) df))"
    if "p \<in> set (facility_totals df)" for p
  proof -
    from that s have "p \<in> set ?g" by simp
    then show ?thesis by (auto simp: groupby_sum_def)
  qed
  then have 3: "map snd (facility_totals df)
       = map (\<lambda>h. na_sum (map daily (filter (\<lambda>r. entity r = Some h) df)))
           (map fst (facility_totals df))"
    by (simp add: comp_def)
  have 4: "sorted (rev (map snd (facility_totals df)))"
    unfolding facility_totals_def by (rule sort_values_desc_props)
  have 5: "facility_totals
        [\<lparr>entity = Some ''H1'', date = Some (2023, 1, 1, 0), daily = Some 10, others = ()\<rparr>,
         \<lparr>entity = Some ''H1'', date = Some (2023, 1, 1, 0), daily = Some 20, others = ()\<rparr>,
         \<lparr>entity = Some ''H2'', date = Some (2023, 1, 1, 0), daily = Some 5, others = ()\<rparr>]
       = [(''H1'', 30), (''H2'', 5)]"
    by (simp add: facility_totals_def sort_values_desc_def groupby_sum_def na_sum_def
          )
  from 1 2 3 4 5 show ?thesis by (intro conjI)
qed

lemma na_sum_Cons: "na_sum (v # vs) = (case v of None \<Rightarrow> 0 | Some x \<Rightarrow> x) + na_sum vs"
  by (simp add: na_sum_def)

lemma na_sum_groups:
  assumes "finite A"
  shows "(\<Sum>k\<in>A. na_sum (map val (filter (\<lambda>r. key r = Some k) df)))
       = na_sum (map val (filter (\<lambda>r. \<exists>k\<in>A. key r = Some k) df))"
proof (induction df)
  case Nil
  show ?case by (simp add: na_sum_def)
next
  case (Cons r df)
  let ?v = "case val r of None \<Rightarrow> 0 | Some x \<Rightarrow> x"
  have "(\<Sum>k\<in>A. na_sum (map val (filter (\<lambda>r. key r = Some k) (r # df))))
      = (\<Sum>k\<in>A. (if key r = Some k then ?v else 0) + na_sum (map val (filter (\<lambda>r. key r = Some k) df)))"
    by (rule sum.cong) (simp_all add: na_sum_Cons)
  also have "\<dots> = (\<Sum>k\<in>A. if key r = Some k then ?v else 0)
      + (\<Sum>k\<in>A. na_sum (map val (filter (\<lambda>r. key r = Some k) df)))"
    by (rule sum.distrib)
  also have "(\<Sum>k\<in>A. if key r = Some k then ?v else 0) = (if \<exists>k\<in>A. key r = Some k then ?v else 0)"
  proof (cases "key r")
    case None
    then show ?thesis by simp
  next
    case (Some k')
    have "(\<Sum>k\<in>A. if k' = k then ?v else 0) = (if k' \<in> A then ?v else 0)"
      using assms by (rule sum.delta')
    with Some show ?thesis by simp
  qed
  finally show ?case
    using Cons.IH by (simp add: na_sum_Cons)
qed

lemma groupby_sum_coarsen:
  "sum_list (map snd (filter (\<lambda>p. g (fst p) = j) (groupby_sum key val df)))
     = na_sum (map val (filter (\<lambda>r. map_option g (key r) = Some j) df))"
proof -
  let ?ks = "sort (remdups (List.map_filter key df))"
  let ?S = "\<lambda>k. na_sum (map val (filter (\<lambda>r. key r = Some k) df))"
  let ?A = "{k \<in> set ?ks. g k = j}"
  have "map snd (filter (\<lambda>p. g (fst p) = j) (groupby_sum key val df))
      = map ?S (filter (\<lambda>k. g k = j) ?ks)"
    by (simp add: groupby_sum_def filter_map comp_def)
  moreover have "distinct (filter (\<lambda>k. g k = j) ?ks)"
    by simp
  ultimately have "sum_list (map snd (filter (\<lambda>p. g (fst p) = j) (groupby_sum key val df)))
      = (\<Sum>k\<in>set (filter (\<lambda>k. g k = j) ?ks). ?S k)"
    by (simp add: sum_list_distinct_conv_sum_set)
  also have "set (filter (\<lambda>k. g k = j) ?ks) = ?A"
    by auto
  also have "(\<Sum>k\<in>?A. ?S k) = na_sum (map val (filter (\<lambda>r. \<exists>k\<in>?A. key r = Some k) df))"
    by (rule na_sum_groups) simp
  also have "filter (\<lambda>r. \<exists>k\<in>?A. key r = Some k) df
      = filter (\<lambda>r. map_option g (key r) = Some j) df"
    by (rule filter_cong) (force simp: map_filter_def)+
  finally show ?thesis .
qed

lemma groupby_sum_coarsen_keys:
  "set (map fst (groupby_sum (\<lambda>r. map_option g (key r)) val df))
     = g ` set (map fst (groupby_sum key val df))"
  unfolding groupby_sum_keys_set by force

lemma groupby_sum_hierarchy:
  "map snd (groupby_sum (\<lambda>r. map_option g (key r)) val df)
     = map (\<lambda>j. sum_list (map snd (filter (\<lambda>p. g (fst p) = j) (groupby_sum key val df))))
         (map fst (groupby_sum (\<lambda>r. map_option g (key r)) val df))"
  unfolding groupby_sum_coarsen
  by (rule groupby_sum_values)

text \<open>
  C7. For both tables: the total of a month is the sum of the daily totals whose date
  lies in that month, and the months are those of the dates; the total of a year is the
  sum of the monthly totals of its months, and the years are those of the months.
\<close>

theorem period_totals_consistent:
  "map snd (facility_monthly df)
     = map (\<lambda>m. sum_list (map snd (filter (\<lambda>p. to_period_M (fst p) = m) (facility_daily_sum df))))
         (map fst (facility_monthly df))
   \<and> set (map fst (facility_monthly df)) = to_period_M ` set (map fst (facility_daily_sum df))
   \<and> map snd (yearly_facility df)
     = map (\<lambda>y. sum_list (map snd (filter (\<lambda>p. fst (fst p) = y) (facility_monthly df))))
         (map fst (yearly_facility df))
   \<and> set (map fst (yearly_facility df)) = fst ` set (map fst (facility_monthly df))
   \<and> map snd (state_monthly df)
     = map (\<lambda>m. sum_list (map snd (filter (\<lambda>p. to_period_M (fst p) = m) (state_daily_sum df))))
         (map fst (state_monthly df))
   \<and> set (map fst (state_monthly df)) = to_period_M ` set (map fst (state_daily_sum df))
   \<and> map snd (yearly_state df)
     = map (\<lambda>y. sum_list (map snd (filter (\<lambda>p. fst (fst p) = y) (state_monthly df))))
         (map fst (yearly_state df))
   \<and> set (map fst (yearly_state df)) = fst ` set (map fst (state_monthly df))"
proof -
  have y: "(\<lambda>r. map_option year (date r))
      = (\<lambda>r :: (timestamp option, 'a) row. map_option fst (map_option to_period_M (date r)))"
  proof -
    have "year = fst \<circ> to_period_M"
      by (simp add: fun_eq_iff year_def to_period_M_def)
    then show ?thesis
      by (simp add: option.map_comp)
  qed
  have m: "map snd (groupby_sum (\<lambda>r. map_option to_period_M (date r)) daily df)
     = map (\<lambda>m. sum_list (map snd (filter (\<lambda>p. to_period_M (fst p) = m) (groupby_sum date daily df))))
         (map fst (groupby_sum (\<lambda>r. map_option to_period_M (date r)) daily df))"
    by (rule groupby_sum_hierarchy)
  have mk: "set (map fst (groupby_sum (\<lambda>r. map_option to_period_M (date r)) daily df))
      = to_period_M ` set (map fst (groupby_sum date daily df))"
    by (rule groupby_sum_coarsen_keys)
  have yv: "map snd (groupby_sum (\<lambda>r. map_option year (date r)) daily df)
     = map (\<lambda>y. sum_list (map snd (filter (\<lambda>p. fst (fst p) = y)
              (groupby_sum (\<lambda>r. map_option to_period_M (date r)) daily df))))
         (map fst (groupby_sum (\<lambda>r. map_option year (date r)) daily df))"
    unfolding y by (rule groupby_sum_hierarchy)
  have yk: "set (map fst (groupby_sum (\<lambda>r. map_option year (date r)) daily df))
      = fst ` set (map fst (groupby_sum (\<lambda>r. map_option to_period_M (date r)) daily df))"
    unfolding y by (rule groupby_sum_coarsen_keys)
  show ?thesis
    unfolding facility_monthly_def state_monthly_def yearly_facility_def yearly_state_def
      facility_daily_sum_def state_daily_sum_def sort_index_groupby_sum
    using m mk yv yk by (intro conjI)
qed

subsection \<open>Cleaning: what the two tables become\<close>

text \<open>
  With \<^verbatim>\<open>errors='coerce'\<close> the conversion of the dates raises nothing, whatever the
  library routines do, and with \<^verbatim>\<open>errors='raise'\<close> it raises exactly when a cell cannot
  be read.
\<close>

lemma to_datetime_coerce:
  "to_datetime P Coerce col = Inr (map (parse_cell (cell_parser P col)) col)"
  by (simp add: to_datetime_def)

lemma to_datetime_raise:
  "to_datetime P Raise col
     = (if \<exists>s. Some s \<in> set col \<and> cell_parser P col s = None then Inl ValueError
        else Inr (map (parse_cell (cell_parser P col)) col))"
proof -
  have "list_ex (\<lambda>c. case c of None \<Rightarrow> False | Some s \<Rightarrow> cell_parser P col s = None) col
      \<longleftrightarrow> (\<exists>s. Some s \<in> set col \<and> cell_parser P col s = None)"
    by (auto simp: list_ex_iff split: option.splits)
  then show ?thesis by (simp only: to_datetime_def Let_def) simp
qed

lemma set_dates_map:
  "set_dates df (map g df)
     = map (\<lambda>r. \<lparr>entity = entity r, date = g r, daily = daily r, others = others r\<rparr>) df"
  by (induction df) (simp_all add: set_dates_def)

lemma convert_dates_result:
  "convert_dates P df
     = Inr (map (\<lambda>r. \<lparr>entity = entity r,
                      date = parse_cell (cell_parser P (map date df)) (date r),
                      daily = daily r, others = others r\<rparr>) df)"
  by (simp add: convert_dates_def to_datetime_coerce set_dates_map comp_def)

lemma facility_df_result:
  "facility_df P raw
     = Inr (map (\<lambda>r. \<lparr>entity = fillna ''Unknown'' (entity r),
                      date = parse_cell (cell_parser P (map date raw)) (date r),
                      daily = daily r, others = others r\<rparr>) raw)"
  by (simp add: facility_df_def convert_dates_result fill_entity_def comp_def)

lemma state_df_result:
  "state_df P True raw
     = (if str_accessor_raises (map entity raw) then Inl AttributeError
        else Inr (map (\<lambda>r. \<lparr>entity = fillna ''Unknown'' (entity r),
                 date = parse_cell (cell_parser P
                          (map date (filter (\<lambda>r. \<not> eq_malaysia (entity r)) raw))) (date r),
                 daily = daily r, others = others r\<rparr>)
               (filter (\<lambda>r. \<not> eq_malaysia (entity r)) raw)))"
  by (simp add: state_df_def drop_malaysia_def convert_dates_result fill_entity_def comp_def)

lemma state_df_without_column:
  "state_df P False raw
     = Inr (map (\<lambda>r. \<lparr>entity = entity r,
                      date = parse_cell (cell_parser P (map date raw)) (date r),
                      daily = daily r, others = others r\<rparr>) raw)"
  by (simp add: state_df_def drop_malaysia_def convert_dates_result)

lemma str_accessor_raises_iff:
  "str_accessor_raises (map entity df) \<longleftrightarrow> df \<noteq> [] \<and> (\<forall>r\<in>set df. entity r = None)"
  by (simp add: str_accessor_raises_def list_all_iff)

text \<open>
  The facility table keeps every row. The state table, when line 34 does not raise,
  keeps the rows whose name does not equal ``Malaysia'' up to letter case; the only
  exception of its cleaning is that of line 34. In both tables the dates are converted
  in place, and a row with \<^verbatim>\<open>NaT\<close> adds neither a key nor an amount to the sums by day,
  month and year. A row without a name that survives is renamed and counts in the sum of
  its day like every other row.
\<close>

lemma state_df_keeps_other_names:
  assumes "\<not> str_accessor_raises (map entity raw)"
  shows "\<exists>df. state_df P True raw = Inr df
     \<and> map entity df = map (\<lambda>r. fillna ''Unknown'' (entity r))
         (filter (\<lambda>r. \<not> (case entity r of None \<Rightarrow> False
                            | Some s \<Rightarrow> equals_ignoring_case s ''Malaysia'')) raw)
     \<and> map daily df = map daily
         (filter (\<lambda>r. \<not> (case entity r of None \<Rightarrow> False
                            | Some s \<Rightarrow> equals_ignoring_case s ''Malaysia'')) raw)
     \<and> map others df = map others
         (filter (\<lambda>r. \<not> (case entity r of None \<Rightarrow> False
                            | Some s \<Rightarrow> equals_ignoring_case s ''Malaysia'')) raw)"
  using assms by (simp add: state_df_result eq_malaysia_iff comp_def)

lemma facility_df_keeps_all_rows:
  "\<exists>df. facility_df P raw = Inr df
     \<and> map entity df = map (\<lambda>r. fillna ''Unknown'' (entity r)) raw
     \<and> map daily df = map daily raw
     \<and> map others df = map others raw
     \<and> map date df = map (\<lambda>r. parse_cell (cell_parser P (map date raw)) (date r)) raw"
  by (simp add: facility_df_result comp_def)

lemma state_df_raises_only_at_line_34:
  "state_df P has_state raw = Inl e \<longleftrightarrow> drop_malaysia has_state raw = Inl e"
  by (auto simp: state_df_def convert_dates_result split: sum.splits)

lemma state_df_dates_in_place:
  assumes "drop_malaysia has_state raw = Inr kept"
  shows "\<exists>df. state_df P has_state raw = Inr df
     \<and> map date df = map (\<lambda>r. parse_cell (cell_parser P (map date kept)) (date r)) kept
     \<and> map daily df = map daily kept \<and> map others df = map others kept"
  using assms by (simp add: state_df_def convert_dates_result fill_entity_def comp_def)

lemma map_filter_filter_key:
  "List.map_filter key (filter (\<lambda>r. key r \<noteq> None) df) = List.map_filter key df"
  by (induction df) (auto simp: map_filter_simps split: option.splits)

lemma groupby_sum_dropna:
  "groupby_sum key val (filter (\<lambda>r. key r \<noteq> None) df) = groupby_sum key val df"
proof -
  have "filter (\<lambda>r. key r = Some k) (filter (\<lambda>r. key r \<noteq> None) df)
      = filter (\<lambda>r. key r = Some k) df" for k
    by (induction df) auto
  then show ?thesis
    by (simp only: groupby_sum_def map_filter_filter_key)
qed

lemma nat_rows_not_grouped:
  "facility_daily_sum df = facility_daily_sum (filter (\<lambda>r. date r \<noteq> None) df)"
  "state_daily_sum df = state_daily_sum (filter (\<lambda>r. date r \<noteq> None) df)"
  "facility_monthly df = facility_monthly (filter (\<lambda>r. date r \<noteq> None) df)"
  "state_monthly df = state_monthly (filter (\<lambda>r. date r \<noteq> None) df)"
  "yearly_facility df = yearly_facility (filter (\<lambda>r. date r \<noteq> None) df)"
  "yearly_state df = yearly_state (filter (\<lambda>r. date r \<noteq> None) df)"
proof -
  have 3: "groupby_sum date daily df = groupby_sum date daily (filter (\<lambda>r. date r \<noteq> None) df)"
    by (rule groupby_sum_dropna [symmetric])
  have 4: "groupby_sum (\<lambda>r. map_option to_period_M (date r)) daily df
      = groupby_sum (\<lambda>r. map_option to_period_M (date r)) daily (filter (\<lambda>r. date r \<noteq> None) df)"
    using groupby_sum_dropna [of "\<lambda>r. map_option to_period_M (date r)" daily df] by simp
  have 5: "groupby_sum (\<lambda>r. map_option year (date r)) daily df
      = groupby_sum (\<lambda>r. map_option year (date r)) daily (filter (\<lambda>r. date r \<noteq> None) df)"
    using groupby_sum_dropna [of "\<lambda>r. map_option year (date r)" daily df] by simp
  show "facility_daily_sum df = facility_daily_sum (filter (\<lambda>r. date r \<noteq> None) df)"
    "state_daily_sum df = state_daily_sum (filter (\<lambda>r. date r \<noteq> None) df)"
    "facility_monthly df = facility_monthly (filter (\<lambda>r. date r \<noteq> None) df)"
    "state_monthly df = state_monthly (filter (\<lambda>r. date r \<noteq> None) df)"
    "yearly_facility df = yearly_facility (filter (\<lambda>r. date r \<noteq> None) df)"
    "yearly_state df = yearly_state (filter (\<lambda>r. date r \<noteq> None) df)"
    unfolding facility_daily_sum_def state_daily_sum_def facility_monthly_def state_monthly_def
      yearly_facility_def yearly_state_def
    using 3 4 5 by simp_all
qed

lemma groupby_sum_entry:
  "(k, t) \<in> set (groupby_sum key val df)
     \<longleftrightarrow> (\<exists>r\<in>set df. key r = Some k)
         \<and> t = na_sum (map val (filter (\<lambda>r. key r = Some k) df))"
proof -
  have "(k, t) \<in> set (groupby_sum key val df)
      \<longleftrightarrow> k \<in> set (map fst (groupby_sum key val df))
          \<and> t = na_sum (map val (filter (\<lambda>r. key r = Some k) df))"
    by (auto simp: groupby_sum_def)
  then show ?thesis
    unfolding groupby_sum_keys_set by simp
qed

lemma daily_sum_totals:
  "(d, t) \<in> set (state_daily_sum df)
     \<longleftrightarrow> (\<exists>r\<in>set df. date r = Some d)
         \<and> t = na_sum (map daily (filter (\<lambda>r. date r = Some d) df))"
  unfolding state_daily_sum_def sort_index_groupby_sum
  by (rule groupby_sum_entry)

lemma unnamed_rows_survive:
  assumes "\<not> str_accessor_raises (map entity raw)" and "r \<in> set raw" and "entity r = None"
  shows "\<exists>df. state_df P True raw = Inr df
     \<and> (\<exists>r'\<in>set df. entity r' = Some ''Unknown'' \<and> daily r' = daily r \<and> others r' = others r)"
proof -
  from assms(3) have "\<not> eq_malaysia (entity r)" by (simp add: eq_malaysia_def)
  with assms(2) have "r \<in> set (filter (\<lambda>r. \<not> eq_malaysia (entity r)) raw)" by simp
  then show ?thesis
    using assms(1,3) by (simp add: state_df_result fillna_def) force
qed

text \<open>
  The sample parser on the example table: the format of the first cell decides, so the
  text that is no date and the date in the other format both become \<^verbatim>\<open>NaT\<close>, and all
  three rows are kept. A column that starts with the other format reads it and rejects
  the first. A column that starts with a text in no format is read cell by cell.
\<close>

lemma sample_parser_examples:
  "facility_df sample_parser example_dates
     = Inr [\<lparr>entity = Some ''H1'', date = Some (2023, 1, 1, 0), daily = Some 10, others = ()\<rparr>,
            \<lparr>entity = Some ''Unknown'', date = None, daily = Some 7, others = ()\<rparr>,
            \<lparr>entity = Some ''H2'', date = None, daily = Some 3, others = ()\<rparr>]"
  "to_datetime sample_parser Coerce [Some ''01/02/2023'', None, Some ''2023-01-01'']
     = Inr [Some (2023, 1, 2, 0), None, None]"
  "to_datetime sample_parser Coerce [Some ''not a date'', Some ''2023-01-01'', Some ''01/02/2023'']
     = Inr [None, Some (2023, 1, 1, 0), Some (2023, 1, 2, 0)]"
  "to_datetime sample_parser Raise (map date example_dates) = Inl ValueError"
  by code_simp+

subsection \<open>Cleaning: a state table without names\<close>

text \<open>
  C5. Cleaning the state table is to remove the rows named ``Malaysia'' up to letter
  case and no other row, whatever the totals. A state table that has rows but no name in
  any of them loses all of them: line 34 raises \<^verbatim>\<open>AttributeError\<close> and leaves no table.
  Here the table has two such rows, with totals 0 and -3.
\<close>

theorem malaysia_filter_raises_without_names:
  "state_df P True
     [\<lparr>entity = None, date = Some ''2023-01-01'', daily = Some 0, others = ()\<rparr>,
      \<lparr>entity = None, date = Some ''2023-01-02'', daily = Some (- 3), others = ()\<rparr>]
     = Inl AttributeError"
  by (simp add: state_df_def drop_malaysia_def str_accessor_raises_def)


text \<open>
  C10. A row of the state table without a name is to pass the filter of line 34 and to
  appear in the cleaned table under the name ``Unknown''. When it is the only row, or
  when no row has a name, line 34 raises \<^verbatim>\<open>AttributeError\<close> and there is no cleaned
  table.
\<close>

theorem unnamed_row_raises:
  "state_df P True
     [\<lparr>entity = None, date = Some ''2023-01-01'', daily = Some 14, others = ()\<rparr>]
     = Inl AttributeError"
  by (simp add: state_df_def drop_malaysia_def str_accessor_raises_def)

subsection \<open>Descriptive statistics\<close>













subsection \<open>The mismatch report\<close>





















subsection \<open>Correlation\<close>















end
